theory Spec2Isabelle
  imports Main
begin

section \<open>The request multiplexer of package mux\<close>

text \<open>
  A shallow embedding of \<^verbatim>\<open>mux.go\<close>. Go strings are byte strings (\<open>string\<close>); a value of
  type \<^verbatim>\<open>http.HandlerFunc\<close> is \<open>'h option\<close>, where \<open>None\<close> is the nil function; a panic is a
  value of type \<open>panic\<close>. The lock \<^verbatim>\<open>mu\<close> is not modelled: every operation is taken as one
  atomic step.
\<close>

subsection \<open>Data\<close>

datatype panic =
    InvalidPattern                  \<comment> \<open>\<^verbatim>\<open>mux: invalid pattern\<close>\<close>
  | MustBeginWithSlash              \<comment> \<open>\<^verbatim>\<open>mux: pattern must begin with "/"\<close>\<close>
  | MustNotEndWithSlash             \<comment> \<open>\<^verbatim>\<open>mux: pattern must not end with "/"\<close>\<close>
  | NilHandler                      \<comment> \<open>\<^verbatim>\<open>mux: nil handler\<close>\<close>
  | MultipleRegistrations string    \<comment> \<open>\<^verbatim>\<open>mux: multiple registrations for\<close> pattern\<close>
  | NilNotFound                     \<comment> \<open>\<^verbatim>\<open>mux: nil notFound\<close>\<close>
  | RegexpMustCompile string        \<comment> \<open>the panic of \<^verbatim>\<open>regexp.MustCompile\<close> on this pattern\<close>
  | IndexOutOfRange                 \<comment> \<open>run-time error: index out of range\<close>
  | NilFuncCall                     \<comment> \<open>run-time error: call of a nil function\<close>

record 'h muxEntry =
  handler :: "'h option"
  regexp :: bool

text \<open>
  The field \<^verbatim>\<open>m\<close> is a Go map that is nil until the first registration. Reading a nil map
  and ranging over it behave as for the empty map (\<open>entries\<close>).
\<close>

record 'h Mux =
  m :: "(string \<rightharpoonup> 'h muxEntry) option"
  notFound :: "'h option"

definition entries :: "'h Mux \<Rightarrow> (string \<rightharpoonup> 'h muxEntry)" where
  "entries mux = (case m mux of None \<Rightarrow> Map.empty | Some t \<Rightarrow> t)"

text \<open>
  \<^verbatim>\<open>range\<close> over a map visits every key once, in an order the language leaves open. An
  iteration is therefore a list of the table's entries with distinct keys, and the
  operations that range over a table take that list as an argument.
\<close>

definition range_order :: "('k \<rightharpoonup> 'v) \<Rightarrow> ('k \<times> 'v) list \<Rightarrow> bool" where
  "range_order t es = (distinct (map fst es) \<and> map_of es = t)"

text \<open>The fields of \<^verbatim>\<open>url.URL\<close> and the fields of \<^verbatim>\<open>http.Request\<close> that the package reads.\<close>

record URL =
  Scheme :: string
  Opaque :: string
  User :: "(string \<times> string option) option"
  Host :: string
  Path :: string
  RawPath :: string
  ForceQuery :: bool
  RawQuery :: string
  Fragment :: string
  RawFragment :: string

definition zeroURL :: URL where
  "zeroURL = \<lparr>Scheme = [], Opaque = [], User = None, Host = [], Path = [], RawPath = [],
     ForceQuery = False, RawQuery = [], Fragment = [], RawFragment = []\<rparr>"

text \<open>
  The request's context is the chain of \<^verbatim>\<open>context.WithValue\<close> bindings, the newest first;
  \<^verbatim>\<open>Value\<close> returns the newest binding of a key.
\<close>

type_synonym Context = "(string \<times> string) list"

definition WithValue :: "Context \<Rightarrow> string \<Rightarrow> string \<Rightarrow> Context" where
  "WithValue c k v = (k, v) # c"


record Request =
  Method :: string
  URL :: URL
  ProtoMajor :: int
  ProtoMinor :: int
  RequestURI :: string
  ctx :: Context

definition ProtoAtLeast :: "Request \<Rightarrow> int \<Rightarrow> int \<Rightarrow> bool" where
  "ProtoAtLeast r major minor =
     (ProtoMajor r > major \<or> ProtoMajor r = major \<and> ProtoMinor r \<ge> minor)"

definition WithContext :: "Request \<Rightarrow> Context \<Rightarrow> Request" where
  "WithContext r c = r\<lparr>ctx := c\<rparr>"

definition MethodConnect :: string where
  "MethodConnect = ''CONNECT''"

definition StatusBadRequest :: int where
  "StatusBadRequest = 400"

definition StatusPermanentRedirect :: int where
  "StatusPermanentRedirect = 308"

text \<open>
  What a dispatch does to its collaborators: it writes a status after setting headers, or
  it calls \<^verbatim>\<open>http.Redirect\<close> with a URL string and a code, or it calls a handler with a
  request.
\<close>

datatype 'h action =
    WriteHeader "(string \<times> string) list" int
  | Redirect string int
  | Call 'h Request

definition invoke :: "'h option \<Rightarrow> Request \<Rightarrow> panic + 'h action" where
  "invoke f r = (case f of None \<Rightarrow> Inl NilFuncCall | Some h \<Rightarrow> Inr (Call h r))"

subsection \<open>The standard library\<close>

text \<open>
  The packages \<^verbatim>\<open>unicode\<close>, \<^verbatim>\<open>strings\<close>, \<^verbatim>\<open>net/url\<close> and \<^verbatim>\<open>regexp\<close> are not part of the
  repository. Their functions are parameters of the model: \<open>Compile\<close> is
  \<^verbatim>\<open>regexp.Compile\<close> with \<open>None\<close> for an error (so \<^verbatim>\<open>regexp.MustCompile\<close> panics exactly
  there), \<open>'re\<close> is the type of compiled expressions. The package does not call
  \<^verbatim>\<open>unicode.IsUpper\<close>; \<open>IsUpper\<close> is here for the statements that speak of upper-case
  letters.
\<close>

type_synonym rune = nat

record 're stdlib =
  IsLetter :: "rune \<Rightarrow> bool"
  IsLower :: "rune \<Rightarrow> bool"
  IsUpper :: "rune \<Rightarrow> bool"
  ToLower :: "string \<Rightarrow> string"
  URLString :: "URL \<Rightarrow> string"
  Compile :: "string \<Rightarrow> 're option"
  MatchString :: "'re \<Rightarrow> string \<Rightarrow> bool"
  FindStringSubmatch :: "'re \<Rightarrow> string \<Rightarrow> string list"
  SubexpNames :: "'re \<Rightarrow> string list"

text \<open>
  \<^verbatim>\<open>range\<close> over a string decodes UTF-8: a byte below 0x80 is a rune of its own, a
  well-formed sequence of two to four bytes is one rune, and any other byte yields
  \<^verbatim>\<open>utf8.RuneError\<close> and is skipped alone.
\<close>

definition RuneError :: rune where
  "RuneError = 0xFFFD"

definition cont :: "nat \<Rightarrow> bool" where
  "cont b = (0x80 \<le> b \<and> b \<le> 0xBF)"

fun decodeRune :: "nat list \<Rightarrow> rune \<times> nat" where
  "decodeRune [] = (RuneError, 0)"
| "decodeRune (b0 # bs) =
    (if b0 < 0x80 then (b0, 1)
     else if b0 < 0xC2 \<or> 0xF4 < b0 then (RuneError, 1)
     else if b0 < 0xE0 then
       (case bs of
          b1 # _ \<Rightarrow> if cont b1 then ((b0 mod 0x20) * 0x40 + b1 mod 0x40, 2) else (RuneError, 1)
        | _ \<Rightarrow> (RuneError, 1))
     else if b0 < 0xF0 then
       (case bs of
          b1 # b2 # _ \<Rightarrow>
            if (if b0 = 0xE0 then 0xA0 else 0x80) \<le> b1
               \<and> b1 \<le> (if b0 = 0xED then 0x9F else 0xBF) \<and> cont b2
            then ((b0 mod 0x10) * 0x1000 + (b1 mod 0x40) * 0x40 + b2 mod 0x40, 3)
            else (RuneError, 1)
        | _ \<Rightarrow> (RuneError, 1))
     else
       (case bs of
          b1 # b2 # b3 # _ \<Rightarrow>
            if (if b0 = 0xF0 then 0x90 else 0x80) \<le> b1
               \<and> b1 \<le> (if b0 = 0xF4 then 0x8F else 0xBF) \<and> cont b2 \<and> cont b3
            then ((b0 mod 0x08) * 0x40000 + (b1 mod 0x40) * 0x1000 + (b2 mod 0x40) * 0x40
                  + b3 mod 0x40, 4)
            else (RuneError, 1)
        | _ \<Rightarrow> (RuneError, 1)))"

function runes_of :: "nat list \<Rightarrow> rune list" where
  "runes_of [] = []"
| "runes_of (b # bs) =
    (case decodeRune (b # bs) of (r, n) \<Rightarrow> r # runes_of (drop (n - 1) bs))"
  by pat_completeness auto
termination
  by (relation "measure length") auto

definition runes :: "string \<Rightarrow> rune list" where
  "runes s = runes_of (map of_char s)"

subsection \<open>Construction and registration\<close>

definition New :: "'h option \<Rightarrow> panic + 'h Mux" where
  "New nf = (if nf = None then Inl NilNotFound else Inr \<lparr>m = None, notFound = nf\<rparr>)"

text \<open>
  A panic can be recovered, so a registration returns the multiplexer it leaves behind
  together with the panic, if any. The parameters \<^verbatim>\<open>handler\<close> and \<^verbatim>\<open>regexp\<close> of
  \<^verbatim>\<open>register\<close> are \<open>h\<close> and \<open>re\<close> here: the names are those of the fields of an entry.
\<close>

definition register :: "'h Mux \<Rightarrow> string \<Rightarrow> 'h option \<Rightarrow> bool \<Rightarrow> panic option \<times> 'h Mux" where
  "register mux pattern h re =
    (if pattern = [] then (Some InvalidPattern, mux)
     else if \<not> re \<and> pattern \<noteq> ''/'' \<and> hd pattern \<noteq> CHR ''/'' then (Some MustBeginWithSlash, mux)
     else if \<not> re \<and> pattern \<noteq> ''/'' \<and> last pattern = CHR ''/''
       then (Some MustNotEndWithSlash, mux)
     else if h = None then (Some NilHandler, mux)
     else if entries mux pattern \<noteq> None then (Some (MultipleRegistrations pattern), mux)
     else (None, mux\<lparr>m := Some ((entries mux)(pattern \<mapsto> \<lparr>handler = h, regexp = re\<rparr>))\<rparr>))"

definition HandleFunc :: "'h Mux \<Rightarrow> string \<Rightarrow> 'h option \<Rightarrow> panic option \<times> 'h Mux" where
  "HandleFunc mux pattern h = register mux pattern h False"

definition RegexpHandleFunc :: "'h Mux \<Rightarrow> string \<Rightarrow> 'h option \<Rightarrow> panic option \<times> 'h Mux" where
  "RegexpHandleFunc mux pattern h = register mux pattern h True"

text \<open>
  \<open>Mount mux prefix es\<close>: \<open>es\<close> is the order in which the loop ranges over the table of
  the mounted multiplexer (a multiplexer other than \<open>mux\<close>). The loop stops at the first
  panic and keeps what it has registered before.
\<close>

fun Mount :: "'h Mux \<Rightarrow> string \<Rightarrow> (string \<times> 'h muxEntry) list \<Rightarrow> panic option \<times> 'h Mux" where
  "Mount mux prefix [] = (None, mux)"
| "Mount mux prefix ((pattern, e) # es) =
    (case HandleFunc mux (prefix @ pattern) (handler e) of
       (Some p, mux') \<Rightarrow> (Some p, mux')
     | (None, mux') \<Rightarrow> Mount mux' prefix es)"

subsection \<open>Dispatch\<close>

definition urlWithoutSlash :: "'re stdlib \<Rightarrow> string \<Rightarrow> string \<Rightarrow> URL \<Rightarrow> panic + URL \<times> bool" where
  "urlWithoutSlash L path pattern u =
    (case Compile L pattern of
       None \<Rightarrow> Inl (RegexpMustCompile pattern)
     | Some re \<Rightarrow>
         if path = [] then Inl IndexOutOfRange
         else if last path = CHR ''/''
                 \<and> (butlast path = pattern \<or> MatchString L re (butlast path))
           then Inr (zeroURL\<lparr>Path := butlast path, RawQuery := RawQuery u\<rparr>, True)
         else Inr (u, False))"

fun isLower_loop :: "'re stdlib \<Rightarrow> rune list \<Rightarrow> bool" where
  "isLower_loop L [] = True"
| "isLower_loop L (r # rs) =
    (if IsLetter L r \<and> \<not> IsLower L r then False else isLower_loop L rs)"

definition isLower :: "'re stdlib \<Rightarrow> string \<Rightarrow> bool" where
  "isLower L s = isLower_loop L (runes s)"

text \<open>
  The loop of \<^verbatim>\<open>addRegexpSubmatchesToContext\<close> over \<^verbatim>\<open>re.SubexpNames()\<close>, with \<open>i\<close> the
  index of the next name.
\<close>

fun submatch_loop :: "string list \<Rightarrow> nat \<Rightarrow> string list \<Rightarrow> Request \<Rightarrow> panic + Request" where
  "submatch_loop submatches i [] r = Inr r"
| "submatch_loop submatches i (name # names) r =
    (if i = 0 \<or> name = [] then submatch_loop submatches (Suc i) names r
     else if i < length submatches
       then submatch_loop submatches (Suc i) names
              (WithContext r (WithValue (ctx r) name (submatches ! i)))
     else Inl IndexOutOfRange)"

definition addRegexpSubmatchesToContext ::
  "'re stdlib \<Rightarrow> 'h option \<Rightarrow> 're \<Rightarrow> Request \<Rightarrow> panic + 'h action" where
  "addRegexpSubmatchesToContext L next re r =
    (case submatch_loop (FindStringSubmatch L re (Path (URL r))) 0 (SubexpNames L re) r of
       Inl p \<Rightarrow> Inl p
     | Inr r' \<Rightarrow> invoke next r')"

text \<open>
  The loop of \<^verbatim>\<open>ServeHTTP\<close> over the table, in the order \<open>es\<close>. \<open>Inr None\<close>: the loop has
  ended without a return.
\<close>

fun serve_loop ::
  "'re stdlib \<Rightarrow> Request \<Rightarrow> (string \<times> 'h muxEntry) list \<Rightarrow> panic + 'h action option" where
  "serve_loop L r [] = Inr None"
| "serve_loop L r ((pattern, e) # es) =
    (case urlWithoutSlash L (Path (URL r)) pattern (URL r) of
       Inl p \<Rightarrow> Inl p
     | Inr (u, True) \<Rightarrow> Inr (Some (Redirect (URLString L u) StatusPermanentRedirect))
     | Inr (u, False) \<Rightarrow>
         if Method r \<noteq> MethodConnect \<and> \<not> isLower L (Path (URL r))
           then Inr (Some (Redirect (ToLower L (URLString L (URL r)))
                  StatusPermanentRedirect))
         else if regexp e then
           (case Compile L pattern of
              None \<Rightarrow> Inl (RegexpMustCompile pattern)
            | Some re \<Rightarrow>
                if MatchString L re (Path (URL r))
                  then map_sum id Some (addRegexpSubmatchesToContext L (handler e) re r)
                else serve_loop L r es)
         else if Path (URL r) = pattern then map_sum id Some (invoke (handler e) r)
         else serve_loop L r es)"

definition ServeHTTP ::
  "'re stdlib \<Rightarrow> 'h Mux \<Rightarrow> (string \<times> 'h muxEntry) list \<Rightarrow> Request \<Rightarrow> panic + 'h action" where
  "ServeHTTP L mux es r =
    (if RequestURI r = ''*'' then
       Inr (WriteHeader (if ProtoAtLeast r 1 1 then [(''Connection'', ''close'')] else [])
              StatusBadRequest)
     else
       (case serve_loop L r es of
          Inl p \<Rightarrow> Inl p
        | Inr (Some a) \<Rightarrow> Inr a
        | Inr None \<Rightarrow> invoke (notFound mux) r))"

subsection \<open>A fragment of the standard library\<close>

text \<open>
  An instance of the parameters, for evaluating the multiplexer on concrete requests. It
  covers a fragment of the library only. Regular expressions: literal bytes, \<^verbatim>\<open>.\<close>,
  classes of bytes and byte ranges, groups, groups named with \<^verbatim>\<open>(?P<name>...)\<close>,
  alternation, the greedy \<^verbatim>\<open>*\<close>, \<^verbatim>\<open>+\<close> and \<^verbatim>\<open>?\<close>, the anchors of the text and escaped
  punctuation, matched leftmost-first on ASCII text; any other construct is reported as a
  compile error. Letters: those of Basic Latin and of the block of CJK unified ideographs.
  URLs: those that have a path and a query and neither scheme, host, user, fragment nor
  \<^verbatim>\<open>RawPath\<close>; the path is escaped as \<^verbatim>\<open>EscapedPath\<close> escapes it.
\<close>

datatype regex =
    Empty
  | Lit char
  | AnyChar
  | CharClass bool "(char \<times> char) list"
  | BeginText
  | EndText
  | Cat regex regex
  | Alt regex regex
  | Star regex
  | Plus regex
  | Quest regex
  | Capture nat string regex

fun class_items :: "string \<Rightarrow> (char \<times> char) list option" where
  "class_items (a # d # b # rest) =
    (if d = CHR ''-'' then
       (if (of_char a :: nat) \<le> of_char b then map_option ((#) (a, b)) (class_items rest) else None)
     else if a = CHR 0x5C then None
     else map_option ((#) (a, a)) (class_items (d # b # rest)))"
| "class_items (a # rest) =
    (if a = CHR 0x5C then None else map_option ((#) (a, a)) (class_items rest))"
| "class_items [] = Some []"

definition mk_cat :: "regex list \<Rightarrow> regex" where
  "mk_cat cur = (case rev cur of [] \<Rightarrow> Empty | x # xs \<Rightarrow> foldl Cat x xs)"

definition close_group :: "regex list \<Rightarrow> regex list \<Rightarrow> regex" where
  "close_group alts cur = (case rev (mk_cat cur # alts) of [] \<Rightarrow> Empty | x # xs \<Rightarrow> foldl Alt x xs)"

definition is_repeat :: "regex \<Rightarrow> bool" where
  "is_repeat x = (case x of Star _ \<Rightarrow> True | Plus _ \<Rightarrow> True | Quest _ \<Rightarrow> True | _ \<Rightarrow> False)"

definition name_char :: "char \<Rightarrow> bool" where
  "name_char c = (let n = (of_char c :: nat) in
     (0x30 \<le> n \<and> n \<le> 0x39) \<or> (0x41 \<le> n \<and> n \<le> 0x5A) \<or> (0x61 \<le> n \<and> n \<le> 0x7A) \<or> n = 0x5F)"

definition punct :: "char \<Rightarrow> bool" where
  "punct c = (let n = (of_char c :: nat) in n < 0x80 \<and> \<not> name_char c)"

type_synonym frame = "regex list \<times> regex list \<times> nat \<times> string"

function parse :: "string \<Rightarrow> regex list \<Rightarrow> regex list \<Rightarrow> frame list \<Rightarrow> nat \<Rightarrow> regex option" where
  "parse [] alts cur stk n = (if stk = [] then Some (close_group alts cur) else None)"
| "parse (c # cs) alts cur stk n =
    (if c = CHR ''('' then
       (if take 3 cs = ''?P<'' then
          (let name = takeWhile (\<lambda>x. x \<noteq> CHR ''>'') (drop 3 cs);
               rest = dropWhile (\<lambda>x. x \<noteq> CHR ''>'') (drop 3 cs)
           in if rest = [] \<or> name = [] \<or> \<not> list_all name_char name then None
              else parse (tl rest) [] [] ((alts, cur, Suc n, name) # stk) (Suc n))
        else if take 1 cs = ''?'' then None
        else parse cs [] [] ((alts, cur, Suc n, []) # stk) (Suc n))
     else if c = CHR '')'' then
       (case stk of
          [] \<Rightarrow> None
        | (alts', cur', i, name) # stk' \<Rightarrow>
            parse cs alts' (Capture i name (close_group alts cur) # cur') stk' n)
     else if c = CHR ''|'' then parse cs (mk_cat cur # alts) [] stk n
     else if c = CHR ''*'' \<or> c = CHR ''+'' \<or> c = CHR ''?'' then
       (case cur of
          [] \<Rightarrow> None
        | x # xs \<Rightarrow>
            if is_repeat x then None
            else parse cs alts
                   ((if c = CHR ''*'' then Star x else if c = CHR ''+'' then Plus x else Quest x) # xs)
                   stk n)
     else if c = CHR ''['' then
       (let neg = (take 1 cs = ''^'');
            body = takeWhile (\<lambda>x. x \<noteq> CHR '']'') (if neg then tl cs else cs);
            rest = dropWhile (\<lambda>x. x \<noteq> CHR '']'') (if neg then tl cs else cs)
        in if rest = [] \<or> body = [] then None
           else (case class_items body of
                   None \<Rightarrow> None
                 | Some items \<Rightarrow> parse (tl rest) alts (CharClass neg items # cur) stk n))
     else if c = CHR 0x5C then
       (case cs of
          [] \<Rightarrow> None
        | x # xs \<Rightarrow> if punct x then parse xs alts (Lit x # cur) stk n else None)
     else if c = CHR ''{'' \<or> 0x80 \<le> (of_char c :: nat) then None
     else if c = CHR ''.'' then parse cs alts (AnyChar # cur) stk n
     else if c = CHR ''^'' then parse cs alts (BeginText # cur) stk n
     else if c = CHR ''$'' then parse cs alts (EndText # cur) stk n
     else parse cs alts (Lit c # cur) stk n)"
  by pat_completeness auto
termination
proof -
  have shorter: "length (dropWhile P xs) - Suc 0 < Suc (length ys)"
    if "length xs \<le> length ys" for P :: "char \<Rightarrow> bool" and xs ys :: string
    using that length_dropWhile_le [of P xs] by simp
  show ?thesis
    by (relation "measure (\<lambda>(s, _). length s)") (auto intro!: shorter)
qed

type_synonym caps = "nat \<rightharpoonup> string"
type_synonym pos = "nat \<times> string"

fun star_loop ::
  "nat \<Rightarrow> (pos \<Rightarrow> caps \<Rightarrow> (pos \<Rightarrow> caps \<Rightarrow> 'r option) \<Rightarrow> 'r option)
     \<Rightarrow> pos \<Rightarrow> caps \<Rightarrow> (pos \<Rightarrow> caps \<Rightarrow> 'r option) \<Rightarrow> 'r option" where
  "star_loop 0 f p c k = k p c"
| "star_loop (Suc n) f p c k =
    (case f p c (\<lambda>p' c'. if fst p < fst p' then star_loop n f p' c' k else None) of
       Some x \<Rightarrow> Some x
     | None \<Rightarrow> k p c)"

definition in_class :: "(char \<times> char) list \<Rightarrow> char \<Rightarrow> bool" where
  "in_class items x =
     list_ex (\<lambda>(lo, hi). (of_char lo :: nat) \<le> of_char x \<and> (of_char x :: nat) \<le> of_char hi) items"

primrec match ::
  "regex \<Rightarrow> pos \<Rightarrow> caps \<Rightarrow> (pos \<Rightarrow> caps \<Rightarrow> 'r option) \<Rightarrow> 'r option" where
  "match Empty p c k = k p c"
| "match (Lit a) p c k =
    (case snd p of [] \<Rightarrow> None | x # xs \<Rightarrow> if x = a then k (Suc (fst p), xs) c else None)"
| "match AnyChar p c k =
    (case snd p of [] \<Rightarrow> None | x # xs \<Rightarrow> if x \<noteq> CHR 0x0A then k (Suc (fst p), xs) c else None)"
| "match (CharClass neg items) p c k =
    (case snd p of
       [] \<Rightarrow> None
     | x # xs \<Rightarrow> if in_class items x \<noteq> neg then k (Suc (fst p), xs) c else None)"
| "match BeginText p c k = (if fst p = 0 then k p c else None)"
| "match EndText p c k = (if snd p = [] then k p c else None)"
| "match (Cat a b) p c k = match a p c (\<lambda>p' c'. match b p' c' k)"
| "match (Alt a b) p c k = (case match a p c k of Some x \<Rightarrow> Some x | None \<Rightarrow> match b p c k)"
| "match (Star a) p c k = star_loop (length (snd p)) (match a) p c k"
| "match (Plus a) p c k =
    match a p c (\<lambda>p' c'. star_loop (length (snd p')) (match a) p' c' k)"
| "match (Quest a) p c k = (case match a p c k of Some x \<Rightarrow> Some x | None \<Rightarrow> k p c)"
| "match (Capture i name a) p c k =
    match a p c (\<lambda>p' c'. k p' (c'(i \<mapsto> take (fst p' - fst p) (snd p))))"

fun search :: "regex \<Rightarrow> nat \<Rightarrow> string \<Rightarrow> (nat \<times> nat \<times> caps) option" where
  "search re i [] =
    (case match re (i, []) Map.empty (\<lambda>p c. Some (fst p, c)) of
       Some (j, c) \<Rightarrow> Some (i, j, c)
     | None \<Rightarrow> None)"
| "search re i (x # xs) =
    (case match re (i, x # xs) Map.empty (\<lambda>p c. Some (fst p, c)) of
       Some (j, c) \<Rightarrow> Some (i, j, c)
     | None \<Rightarrow> search re (Suc i) xs)"

primrec cap_names :: "regex \<Rightarrow> string list" where
  "cap_names Empty = []"
| "cap_names (Lit a) = []"
| "cap_names AnyChar = []"
| "cap_names (CharClass neg items) = []"
| "cap_names BeginText = []"
| "cap_names EndText = []"
| "cap_names (Cat a b) = cap_names a @ cap_names b"
| "cap_names (Alt a b) = cap_names a @ cap_names b"
| "cap_names (Star a) = cap_names a"
| "cap_names (Plus a) = cap_names a"
| "cap_names (Quest a) = cap_names a"
| "cap_names (Capture i name a) = name # cap_names a"

definition re_Compile :: "string \<Rightarrow> regex option" where
  "re_Compile s = parse s [] [] [] 0"

definition re_MatchString :: "regex \<Rightarrow> string \<Rightarrow> bool" where
  "re_MatchString re s = (search re 0 s \<noteq> None)"

definition re_FindStringSubmatch :: "regex \<Rightarrow> string \<Rightarrow> string list" where
  "re_FindStringSubmatch re s =
    (case search re 0 s of
       None \<Rightarrow> []
     | Some (i, j, c) \<Rightarrow>
         take (j - i) (drop i s)
         # map (\<lambda>g. case c g of None \<Rightarrow> [] | Some x \<Rightarrow> x) [1..<Suc (length (cap_names re))])"

definition re_SubexpNames :: "regex \<Rightarrow> string list" where
  "re_SubexpNames re = [] # cap_names re"

definition ascii_IsLower :: "rune \<Rightarrow> bool" where
  "ascii_IsLower r = (0x61 \<le> r \<and> r \<le> 0x7A)"

definition ascii_IsUpper :: "rune \<Rightarrow> bool" where
  "ascii_IsUpper r = (0x41 \<le> r \<and> r \<le> 0x5A)"

definition fragment_IsLetter :: "rune \<Rightarrow> bool" where
  "fragment_IsLetter r =
     ((0x41 \<le> r \<and> r \<le> 0x5A) \<or> (0x61 \<le> r \<and> r \<le> 0x7A) \<or> (0x4E00 \<le> r \<and> r \<le> 0x9FFF))"

definition ascii_ToLower :: "string \<Rightarrow> string" where
  "ascii_ToLower s =
     map (\<lambda>c. if 0x41 \<le> (of_char c :: nat) \<and> (of_char c :: nat) \<le> 0x5A
              then char_of (of_char c + (0x20 :: nat)) else c) s"

definition shouldEscape_path :: "char \<Rightarrow> bool" where
  "shouldEscape_path c =
     (\<not> ((0x61 \<le> (of_char c :: nat) \<and> (of_char c :: nat) \<le> 0x7A)
         \<or> (0x41 \<le> (of_char c :: nat) \<and> (of_char c :: nat) \<le> 0x5A)
         \<or> (0x30 \<le> (of_char c :: nat) \<and> (of_char c :: nat) \<le> 0x39)
         \<or> c \<in> set ''-_.~$&+,/:;=@''))"

definition upperhex :: "nat \<Rightarrow> char" where
  "upperhex n = ''0123456789ABCDEF'' ! n"

definition escape_path :: "string \<Rightarrow> string" where
  "escape_path s =
     concat (map (\<lambda>c. if shouldEscape_path c
                        then [CHR ''%'', upperhex (of_char c div 16), upperhex (of_char c mod 16)]
                        else [c]) s)"

definition EscapedPath :: "URL \<Rightarrow> string" where
  "EscapedPath u = (if Path u = ''*'' then ''*'' else escape_path (Path u))"

definition plain_URLString :: "URL \<Rightarrow> string" where
  "plain_URLString u =
     (if CHR '':'' \<in> set (takeWhile (\<lambda>c. c \<noteq> CHR ''/'') (EscapedPath u)) then ''./'' else [])
     @ EscapedPath u
     @ (if ForceQuery u \<or> RawQuery u \<noteq> [] then ''?'' @ RawQuery u else [])"

definition golib :: "regex stdlib" where
  "golib = \<lparr>IsLetter = fragment_IsLetter, IsLower = ascii_IsLower, IsUpper = ascii_IsUpper,
     ToLower = ascii_ToLower,
     URLString = plain_URLString, Compile = re_Compile, MatchString = re_MatchString,
     FindStringSubmatch = re_FindStringSubmatch, SubexpNames = re_SubexpNames\<rparr>"

section \<open>Vocabulary\<close>

text \<open>
  The conditions of one round of the loop of \<^verbatim>\<open>ServeHTTP\<close>, named for the statements below.
  \<open>passes_slash_check\<close>: \<^verbatim>\<open>urlWithoutSlash\<close> compiles the pattern, reads the last byte of a
  non-empty path and reports that no slash has to be removed. \<open>entry_matches\<close>: the match
  test of the round. \<open>falls_through\<close>: the round neither returns nor panics, so the loop
  goes on to the next entry (\<open>falls_through_iff\<close> below). \<open>valid_pattern\<close>: what
  \<^verbatim>\<open>register\<close> demands of a pattern of the given kind.
\<close>

definition passes_slash_check :: "'re stdlib \<Rightarrow> string \<Rightarrow> string \<Rightarrow> bool" where
  "passes_slash_check L path pattern =
    (case Compile L pattern of
       None \<Rightarrow> False
     | Some re \<Rightarrow>
         path \<noteq> []
         \<and> \<not> (last path = CHR ''/'' \<and> (butlast path = pattern \<or> MatchString L re (butlast path))))"

definition entry_matches :: "'re stdlib \<Rightarrow> string \<Rightarrow> string \<Rightarrow> 'h muxEntry \<Rightarrow> bool" where
  "entry_matches L path pattern e =
    (if regexp e then (case Compile L pattern of None \<Rightarrow> False | Some re \<Rightarrow> MatchString L re path)
     else path = pattern)"

definition falls_through :: "'re stdlib \<Rightarrow> Request \<Rightarrow> string \<times> 'h muxEntry \<Rightarrow> bool" where
  "falls_through L r x =
    (passes_slash_check L (Path (URL r)) (fst x)
     \<and> (Method r = MethodConnect \<or> isLower L (Path (URL r)))
     \<and> \<not> entry_matches L (Path (URL r)) (fst x) (snd x))"

definition valid_pattern :: "string \<Rightarrow> bool \<Rightarrow> bool" where
  "valid_pattern p re =
     (p \<noteq> [] \<and> (re \<or> p = ''/'' \<or> (hd p = CHR ''/'' \<and> last p \<noteq> CHR ''/'')))"


text \<open>
  Concrete inputs. \<open>fresh\<close> is the multiplexer that \<^verbatim>\<open>New\<close> returns for the handler 0;
  handlers are numbers. \<open>GET path\<close> is the request that the server builds for the request
  line \<^verbatim>\<open>GET path HTTP/1.1\<close>, \<open>GET_query path query\<close> the one for a path with a query, and
  \<open>CONNECT host\<close> the one for \<^verbatim>\<open>CONNECT host HTTP/1.1\<close>, whose URL has a host and no path.
\<close>

definition fresh :: "nat Mux" where
  "fresh = \<lparr>m = None, notFound = Some 0\<rparr>"

definition GET :: "string \<Rightarrow> Request" where
  "GET path = \<lparr>Method = ''GET'', URL = zeroURL\<lparr>Path := path\<rparr>, ProtoMajor = 1, ProtoMinor = 1,
     RequestURI = path, ctx = []\<rparr>"

definition GET_query :: "string \<Rightarrow> string \<Rightarrow> Request" where
  "GET_query path query = \<lparr>Method = ''GET'', URL = zeroURL\<lparr>Path := path, RawQuery := query\<rparr>,
     ProtoMajor = 1, ProtoMinor = 1, RequestURI = path @ ''?'' @ query, ctx = []\<rparr>"

definition CONNECT :: "string \<Rightarrow> Request" where
  "CONNECT host = \<lparr>Method = ''CONNECT'', URL = zeroURL\<lparr>Host := host\<rparr>, ProtoMajor = 1,
     ProtoMinor = 1, RequestURI = host, ctx = []\<rparr>"

section \<open>Lemmas\<close>

subsection \<open>Evaluation\<close>

text \<open>The definitions that the simplifier unfolds to run the model on a concrete input.\<close>

lemmas eval_defs =
  entries_def range_order_def zeroURL_def WithValue_def ProtoAtLeast_def WithContext_def
  MethodConnect_def StatusBadRequest_def StatusPermanentRedirect_def invoke_def
  RuneError_def cont_def runes_def
  register_def HandleFunc_def RegexpHandleFunc_def
  urlWithoutSlash_def isLower_def addRegexpSubmatchesToContext_def ServeHTTP_def
  mk_cat_def close_group_def is_repeat_def name_char_def punct_def in_class_def
  re_Compile_def re_MatchString_def re_FindStringSubmatch_def re_SubexpNames_def
  ascii_IsLower_def ascii_IsUpper_def fragment_IsLetter_def ascii_ToLower_def
  shouldEscape_path_def upperhex_def escape_path_def EscapedPath_def plain_URLString_def golib_def
  char_of_def bit_Suc_0_iff
  fresh_def GET_def

lemma New_fresh: "New (Some 0) = Inr fresh"
  by (simp add: New_def fresh_def)

subsection \<open>The loop of the dispatcher\<close>

lemma urlWithoutSlash_passes:
  "urlWithoutSlash L path pattern u = Inr (u, False) \<longleftrightarrow> passes_slash_check L path pattern"
  by (auto simp: urlWithoutSlash_def passes_slash_check_def split: option.splits)

lemma passes_slash_check_no_slash:
  "Compile L pattern \<noteq> None \<Longrightarrow> path \<noteq> [] \<Longrightarrow> last path \<noteq> CHR ''/''
     \<Longrightarrow> passes_slash_check L path pattern"
  by (auto simp: passes_slash_check_def split: option.splits)

lemma invoke_not_continue: "map_sum id Some (invoke f r) \<noteq> Inr None"
  by (simp add: invoke_def split: option.splits)

lemma addRegexp_not_continue:
  "map_sum id Some (addRegexpSubmatchesToContext L f re r) \<noteq> Inr None"
  by (simp add: addRegexpSubmatchesToContext_def invoke_def split: option.splits sum.splits)

lemma serve_loop_falls_through:
  "falls_through L r x \<Longrightarrow> serve_loop L r (x # es) = serve_loop L r es"
  by (cases x)
    (auto simp: falls_through_def passes_slash_check_def entry_matches_def urlWithoutSlash_def
      split: option.splits if_splits)

lemma serve_loop_prefix:
  "list_all (falls_through L r) pre \<Longrightarrow> serve_loop L r (pre @ es) = serve_loop L r es"
  by (induction pre) (simp_all add: serve_loop_falls_through)

lemma falls_through_iff:
  "falls_through L r x \<longleftrightarrow> serve_loop L r [x] = Inr None"
  by (cases x)
    (auto simp: falls_through_def passes_slash_check_def entry_matches_def urlWithoutSlash_def
      invoke_not_continue addRegexp_not_continue
      split: option.splits if_splits)

lemma range_order_empty: "range_order Map.empty es \<longleftrightarrow> es = []"
  by (auto simp: range_order_def)

lemma isLower_loop_iff:
  "isLower_loop L rs \<longleftrightarrow> (\<forall>c\<in>set rs. IsLetter L c \<longrightarrow> IsLower L c)"
  by (induction rs) auto

lemma isLower_iff:
  "isLower L s \<longleftrightarrow> (\<forall>c\<in>set (runes s). IsLetter L c \<longrightarrow> IsLower L c)"
  by (simp add: isLower_def isLower_loop_iff)

lemma upper_not_isLower:
  assumes "\<forall>c. IsUpper L c \<longrightarrow> IsLetter L c \<and> \<not> IsLower L c"
    and "\<exists>c\<in>set (runes s). IsUpper L c"
  shows "\<not> isLower L s"
  using assms by (auto simp: isLower_iff)

lemma ServeHTTP_loop:
  "RequestURI r \<noteq> ''*'' \<Longrightarrow>
   ServeHTTP L mux es r =
     (case serve_loop L r es of
        Inl p \<Rightarrow> Inl p
      | Inr (Some a) \<Rightarrow> Inr a
      | Inr None \<Rightarrow> invoke (notFound mux) r)"
  by (simp add: ServeHTTP_def)

lemma serve_loop_slash:
  assumes "Compile L pattern = Some re"
    and "Path (URL r) \<noteq> []" and "last (Path (URL r)) = CHR ''/''"
    and "butlast (Path (URL r)) = pattern \<or> MatchString L re (butlast (Path (URL r)))"
  shows "serve_loop L r ((pattern, e) # es) =
    Inr (Some (Redirect
      (URLString L (zeroURL\<lparr>Path := butlast (Path (URL r)), RawQuery := RawQuery (URL r)\<rparr>))
      StatusPermanentRedirect))"
  using assms by (auto simp: urlWithoutSlash_def)

lemma serve_loop_case:
  assumes "passes_slash_check L (Path (URL r)) pattern"
    and "Method r \<noteq> MethodConnect" and "\<not> isLower L (Path (URL r))"
  shows "serve_loop L r ((pattern, e) # es) =
    Inr (Some (Redirect (ToLower L (URLString L (URL r))) StatusPermanentRedirect))"
  using assms by (simp add: urlWithoutSlash_passes [THEN iffD2])

lemma serve_loop_uncompilable:
  "Compile L pattern = None \<Longrightarrow>
   serve_loop L r ((pattern, e) # es) = Inl (RegexpMustCompile pattern)"
  by (simp add: urlWithoutSlash_def)

lemma serve_loop_empty_path:
  "Compile L pattern \<noteq> None \<Longrightarrow> Path (URL r) = [] \<Longrightarrow>
   serve_loop L r ((pattern, e) # es) = Inl IndexOutOfRange"
  by (auto simp: urlWithoutSlash_def)



lemma serve_loop_redirect_of_lower:
  assumes "isLower L (Path (URL r))"
    and "serve_loop L r es = Inr (Some (Redirect u c))"
  shows "Path (URL r) \<noteq> [] \<and> last (Path (URL r)) = CHR ''/''
    \<and> u = URLString L (zeroURL\<lparr>Path := butlast (Path (URL r)), RawQuery := RawQuery (URL r)\<rparr>)
    \<and> c = StatusPermanentRedirect"
  using assms
proof (induction es)
  case Nil
  then show ?case by simp
next
  case (Cons x es)
  obtain pattern e where x: "x = (pattern, e)"
    by (cases x)
  show ?case
    using Cons
    by (auto simp: x urlWithoutSlash_def invoke_def addRegexpSubmatchesToContext_def
        split: option.splits if_splits sum.splits)
qed

subsection \<open>The context of a matched regular expression\<close>





subsection \<open>Entries under registration and mounting\<close>

lemma HandleFunc_keeps:
  "entries mux p = Some x \<Longrightarrow> entries (snd (HandleFunc mux q h)) p = Some x"
  by (auto simp: HandleFunc_def register_def entries_def)

lemma HandleFunc_adds_literal:
  "fst (HandleFunc mux p h) = None \<Longrightarrow>
   entries (snd (HandleFunc mux p h)) p = Some \<lparr>handler = h, regexp = False\<rparr>"
  by (auto simp: HandleFunc_def register_def entries_def split: if_splits)

lemma Mount_keeps:
  "entries mux p = Some x \<Longrightarrow> entries (snd (Mount mux prefix es)) p = Some x"
proof (induction es arbitrary: mux)
  case Nil
  then show ?case by simp
next
  case (Cons y es)
  obtain pattern e where y: "y = (pattern, e)"
    by (cases y)
  obtain res mux' where h: "HandleFunc mux (prefix @ pattern) (handler e) = (res, mux')"
    by (cases "HandleFunc mux (prefix @ pattern) (handler e)")
  from Cons.prems have k: "entries mux' p = Some x"
    using HandleFunc_keeps [of mux p x "prefix @ pattern" "handler e"] by (simp add: h)
  show ?case
  proof (cases res)
    case None
    then show ?thesis
      using Cons.IH [OF k] by (simp add: y h)
  next
    case (Some a)
    then show ?thesis
      using k by (simp add: y h)
  qed
qed

lemma Mount_entries_literal:
  assumes "fst (Mount mux prefix es) = None" and "(pattern, e) \<in> set es"
  shows "entries (snd (Mount mux prefix es)) (prefix @ pattern)
    = Some \<lparr>handler = handler e, regexp = False\<rparr>"
  using assms
proof (induction es arbitrary: mux)
  case Nil
  then show ?case by simp
next
  case (Cons y es)
  obtain q d where y: "y = (q, d)"
    by (cases y)
  obtain res mux' where h: "HandleFunc mux (prefix @ q) (handler d) = (res, mux')"
    by (cases "HandleFunc mux (prefix @ q) (handler d)")
  from Cons.prems(1) have res: "res = None" and ok: "fst (Mount mux' prefix es) = None"
    by (auto simp: y h split: option.splits)
  show ?case
  proof (cases "(pattern, e) = (q, d)")
    case True
    from HandleFunc_adds_literal [of mux "prefix @ q" "handler d"] h res
    have "entries mux' (prefix @ q) = Some \<lparr>handler = handler d, regexp = False\<rparr>"
      by simp
    then have "entries (snd (Mount mux' prefix es)) (prefix @ q)
      = Some \<lparr>handler = handler d, regexp = False\<rparr>"
      by (rule Mount_keeps)
    with True show ?thesis
      by (simp add: y h res)
  next
    case False
    with Cons.prems(2) have "(pattern, e) \<in> set es"
      by (auto simp: y)
    with ok have "entries (snd (Mount mux' prefix es)) (prefix @ pattern)
      = Some \<lparr>handler = handler e, regexp = False\<rparr>"
      by (rule Cons.IH)
    then show ?thesis
      by (simp add: y h res)
  qed
qed

lemma Mount_append:
  "Mount mux prefix (pre @ es) =
    (case Mount mux prefix pre of
       (Some x, mux') \<Rightarrow> (Some x, mux')
     | (None, mux') \<Rightarrow> Mount mux' prefix es)"
proof (induction pre arbitrary: mux)
  case Nil
  then show ?case by simp
next
  case (Cons y pre)
  obtain pattern e where y: "y = (pattern, e)"
    by (cases y)
  obtain res mux' where h: "HandleFunc mux (prefix @ pattern) (handler e) = (res, mux')"
    by (cases "HandleFunc mux (prefix @ pattern) (handler e)")
  show ?case
    using Cons.IH [of mux'] by (cases res) (simp_all add: y h)
qed

lemma Mount_duplicate_first:
  assumes "entries mux (prefix @ pattern) \<noteq> None"
  shows "fst (Mount mux prefix ((pattern, e) # es)) \<noteq> None
    \<and> snd (Mount mux prefix ((pattern, e) # es)) = mux
    \<and> (valid_pattern (prefix @ pattern) False \<and> handler e \<noteq> None
         \<longrightarrow> fst (Mount mux prefix ((pattern, e) # es)) = Some (MultipleRegistrations (prefix @ pattern)))"
  using assms by (auto simp: register_def valid_pattern_def HandleFunc_def)

section \<open>The behaviour of the multiplexer\<close>

subsection \<open>Registration\<close>

text \<open>
  C5, as amended. Registering a pattern that the table does not hold, with a handler that is
  not nil,
  succeeds exactly when the pattern is valid for its kind: not empty, and for a literal
  pattern either \<^verbatim>\<open>/\<close> itself or one that begins with a slash and does not end with one. The
  checks run in the order of the source: the empty pattern panics with
  \<^verbatim>\<open>invalid pattern\<close>; a literal pattern other than \<^verbatim>\<open>/\<close> that does not begin with a
  slash panics with \<^verbatim>\<open>must begin\<close>; one that begins with a slash and ends with one panics
  with \<^verbatim>\<open>must not end\<close>. A regular expression is accepted whenever it is not empty: the
  registration never compiles it. A successful registration adds exactly the new entry.
\<close>

theorem register_fresh:
  assumes "entries mux p = None" and "h \<noteq> None"
  shows "(fst (register mux p h re) = None \<longleftrightarrow> valid_pattern p re)
    \<and> (p = [] \<longrightarrow> fst (register mux p h re) = Some InvalidPattern)
    \<and> (p \<noteq> [] \<and> \<not> re \<and> p \<noteq> ''/'' \<and> hd p \<noteq> CHR ''/''
         \<longrightarrow> fst (register mux p h re) = Some MustBeginWithSlash)
    \<and> (p \<noteq> [] \<and> \<not> re \<and> p \<noteq> ''/'' \<and> hd p = CHR ''/'' \<and> last p = CHR ''/''
         \<longrightarrow> fst (register mux p h re) = Some MustNotEndWithSlash)
    \<and> (re \<and> p \<noteq> [] \<longrightarrow> fst (register mux p h re) = None)
    \<and> (fst (register mux p h re) = None
         \<longrightarrow> entries (snd (register mux p h re)) = (entries mux)(p \<mapsto> \<lparr>handler = h, regexp = re\<rparr>))"
  using assms by (auto simp: register_def valid_pattern_def entries_def)

theorem register_fresh_witness:
  "entries fresh ''/a'' = None
   \<and> fst (register fresh ''/a'' (Some 1) False) = None
   \<and> entries (snd (register fresh ''/a'' (Some 1) False)) ''/a'' = Some \<lparr>handler = Some 1, regexp = False\<rparr>
   \<and> fst (register fresh ''/'' (Some 1) False) = None
   \<and> fst (register fresh [] (Some 1) True) = Some InvalidPattern
   \<and> fst (register fresh ''a'' (Some 1) False) = Some MustBeginWithSlash
   \<and> fst (register fresh ''/a/'' (Some 1) False) = Some MustNotEndWithSlash
   \<and> fst (register fresh ''/a('' (Some 1) True) = None"
proof -
  have a: "entries fresh p = None" for p
    by (simp add: entries_def fresh_def)
  have b: "Some (1::nat) \<noteq> None"
    by simp
  show ?thesis
    using register_fresh [OF a b, of "''/a''" False] register_fresh [OF a b, of "''/''" False]
      register_fresh [OF a b, of "[]" True] register_fresh [OF a b, of "''a''" False]
      register_fresh [OF a b, of "''/a/''" False] register_fresh [OF a b, of "''/a(''" True]
    by (simp add: a valid_pattern_def)
qed

text \<open>
  The counterexample to the claim as stated, which gives the error \<^verbatim>\<open>must not end\<close> to
  every literal pattern other than \<^verbatim>\<open>/\<close> that ends with a slash: the pattern \<^verbatim>\<open>a/\<close> ends
  with a slash and panics with \<^verbatim>\<open>must begin\<close>, the check that runs first.
\<close>

theorem register_fresh_counterexample:
  "entries fresh ''a/'' = None
   \<and> ''a/'' \<noteq> ''/''
   \<and> last ''a/'' = CHR ''/''
   \<and> fst (register fresh ''a/'' (Some 1) False) = Some MustBeginWithSlash"
  by (simp add: eval_defs)

text \<open>
  C3, as amended. Registering a pattern \<open>p\<close> that the table already holds always panics
  and leaves the multiplexer as it was. The panic is \<^verbatim>\<open>multiple registrations\<close> when the
  pattern is valid for the kind asked for and the handler is not nil; otherwise an earlier
  check of \<^verbatim>\<open>register\<close> panics first. A \<^verbatim>\<open>Mount\<close> that meets an entry whose pattern behind the
  prefix is \<open>p\<close> panics wherever the loop meets it, and every entry the table held still
  has its handler and kind. When the entries \<open>pre\<close> visited before it register without a
  panic, the multiplexer is left as their registration made it (as it was, when there are
  none), and the panic is \<^verbatim>\<open>multiple registrations\<close> if \<open>p\<close> is valid as a literal and the
  handler is not nil.
\<close>

theorem register_existing:
  assumes "entries mux p \<noteq> None"
  shows "fst (register mux p h re) \<noteq> None
    \<and> snd (register mux p h re) = mux
    \<and> (valid_pattern p re \<and> h \<noteq> None
         \<longrightarrow> fst (register mux p h re) = Some (MultipleRegistrations p))
    \<and> (\<forall>prefix pre pattern e post. prefix @ pattern = p
         \<longrightarrow> fst (Mount mux prefix (pre @ (pattern, e) # post)) \<noteq> None
           \<and> (\<forall>q x. entries mux q = Some x
                \<longrightarrow> entries (snd (Mount mux prefix (pre @ (pattern, e) # post))) q = Some x)
           \<and> (fst (Mount mux prefix pre) = None
                \<longrightarrow> snd (Mount mux prefix (pre @ (pattern, e) # post)) = snd (Mount mux prefix pre)
                  \<and> (valid_pattern p False \<and> handler e \<noteq> None
                       \<longrightarrow> fst (Mount mux prefix (pre @ (pattern, e) # post))
                            = Some (MultipleRegistrations p))))"
proof (intro conjI allI impI)
  show "fst (register mux p h re) \<noteq> None" and "snd (register mux p h re) = mux"
    using assms by (auto simp: register_def)
next
  assume "valid_pattern p re \<and> h \<noteq> None"
  then show "fst (register mux p h re) = Some (MultipleRegistrations p)"
    using assms by (auto simp: register_def valid_pattern_def)
next
  fix prefix pre pattern e post
  assume p: "prefix @ pattern = p"
  obtain res mux' where m: "Mount mux prefix pre = (res, mux')"
    by (cases "Mount mux prefix pre")
  from assms obtain y where "entries mux p = Some y"
    by auto
  then have "entries (snd (Mount mux prefix pre)) p = Some y"
    by (rule Mount_keeps)
  then have held: "entries mux' (prefix @ pattern) \<noteq> None"
    by (simp add: m p)
  note d = Mount_duplicate_first [OF held, of e post]
  show "fst (Mount mux prefix (pre @ (pattern, e) # post)) \<noteq> None"
    using d by (cases res) (simp_all add: Mount_append m del: Mount.simps)
  {
    fix q x
    assume "entries mux q = Some x"
    then show "entries (snd (Mount mux prefix (pre @ (pattern, e) # post))) q = Some x"
      by (rule Mount_keeps)
  }
  {
    assume ok: "fst (Mount mux prefix pre) = None"
    then have res: "res = None"
      by (simp add: m)
    show "snd (Mount mux prefix (pre @ (pattern, e) # post)) = snd (Mount mux prefix pre)"
      using d by (simp add: Mount_append m res del: Mount.simps)
    {
      assume "valid_pattern p False \<and> handler e \<noteq> None"
      then show "fst (Mount mux prefix (pre @ (pattern, e) # post))
          = Some (MultipleRegistrations p)"
        using d by (simp add: Mount_append m res p del: Mount.simps)
    }
  }
qed

theorem register_existing_witness:
  "entries (snd (HandleFunc fresh ''/x/b'' (Some 1))) ''/x/b'' = Some \<lparr>handler = Some 1, regexp = False\<rparr>
   \<and> register (snd (HandleFunc fresh ''/x/b'' (Some 1))) ''/x/b'' (Some 2) False
       = (Some (MultipleRegistrations ''/x/b''), snd (HandleFunc fresh ''/x/b'' (Some 1)))
   \<and> Mount (snd (HandleFunc fresh ''/x/b'' (Some 1))) ''/x''
         [(''/b'', \<lparr>handler = Some 2, regexp = False\<rparr>), (''/a'', \<lparr>handler = Some 3, regexp = False\<rparr>)]
       = (Some (MultipleRegistrations ''/x/b''), snd (HandleFunc fresh ''/x/b'' (Some 1)))
   \<and> fst (Mount (snd (HandleFunc fresh ''/x/b'' (Some 1))) ''/x''
         [(''/a'', \<lparr>handler = Some 3, regexp = False\<rparr>)]) = None
   \<and> Mount (snd (HandleFunc fresh ''/x/b'' (Some 1))) ''/x''
         [(''/a'', \<lparr>handler = Some 3, regexp = False\<rparr>), (''/b'', \<lparr>handler = Some 2, regexp = False\<rparr>)]
       = (Some (MultipleRegistrations ''/x/b''),
          snd (Mount (snd (HandleFunc fresh ''/x/b'' (Some 1))) ''/x''
                 [(''/a'', \<lparr>handler = Some 3, regexp = False\<rparr>)]))
   \<and> entries (snd (Mount (snd (HandleFunc fresh ''/x/b'' (Some 1))) ''/x''
         [(''/a'', \<lparr>handler = Some 3, regexp = False\<rparr>), (''/b'', \<lparr>handler = Some 2, regexp = False\<rparr>)]))
         ''/x/b'' = Some \<lparr>handler = Some 1, regexp = False\<rparr>"
proof -
  let ?mux = "snd (HandleFunc fresh ''/x/b'' (Some 1))"
  let ?a = "(''/a'', \<lparr>handler = Some (3::nat), regexp = False\<rparr>)"
  let ?eb = "\<lparr>handler = Some (2::nat), regexp = False\<rparr>"
  have held: "entries ?mux ''/x/b'' \<noteq> None"
    and e: "entries ?mux ''/x/b'' = Some \<lparr>handler = Some 1, regexp = False\<rparr>"
    by (simp_all add: eval_defs)
  have v: "valid_pattern ''/x/b'' False \<and> Some (2::nat) \<noteq> None"
    "valid_pattern ''/x/b'' False \<and> handler ?eb \<noteq> None"
    by (simp_all add: valid_pattern_def)
  have p: "''/x'' @ ''/b'' = ''/x/b''"
    by simp
  have ok: "fst (Mount ?mux ''/x'' [?a]) = None" and ok0: "fst (Mount ?mux ''/x'' []) = None"
    by (simp_all add: eval_defs)
  note t = register_existing [OF held, of "Some 2" False]
  from t v(1) have r: "register ?mux ''/x/b'' (Some 2) False
      = (Some (MultipleRegistrations ''/x/b''), ?mux)"
    by (simp add: prod_eq_iff)
  from t p v(2) ok0
  have "fst (Mount ?mux ''/x'' ([] @ (''/b'', ?eb) # [?a])) = Some (MultipleRegistrations ''/x/b'')
      \<and> snd (Mount ?mux ''/x'' ([] @ (''/b'', ?eb) # [?a])) = snd (Mount ?mux ''/x'' [])"
    by blast
  then have first: "Mount ?mux ''/x'' [(''/b'', ?eb), ?a]
      = (Some (MultipleRegistrations ''/x/b''), ?mux)"
    by (simp add: prod_eq_iff)
  from t p v(2) ok
  have "fst (Mount ?mux ''/x'' ([?a] @ (''/b'', ?eb) # [])) = Some (MultipleRegistrations ''/x/b'')
      \<and> snd (Mount ?mux ''/x'' ([?a] @ (''/b'', ?eb) # [])) = snd (Mount ?mux ''/x'' [?a])"
    by blast
  then have later: "Mount ?mux ''/x'' [?a, (''/b'', ?eb)]
      = (Some (MultipleRegistrations ''/x/b''), snd (Mount ?mux ''/x'' [?a]))"
    by (simp add: prod_eq_iff)
  from t p e
  have "entries (snd (Mount ?mux ''/x'' ([?a] @ (''/b'', ?eb) # []))) ''/x/b''
      = Some \<lparr>handler = Some 1, regexp = False\<rparr>"
    by blast
  then have kept: "entries (snd (Mount ?mux ''/x'' [?a, (''/b'', ?eb)])) ''/x/b''
      = Some \<lparr>handler = Some 1, regexp = False\<rparr>"
    by simp
  from e r first ok later kept show ?thesis
    by simp
qed

text \<open>
  The counterexample to the claim as stated, for which every such call panics with
  \<^verbatim>\<open>multiple registrations\<close> and leaves the table unchanged: a pattern registered as a
  regular expression and registered again as a literal panics with \<^verbatim>\<open>must begin\<close>; a
  second registration with a nil handler panics with \<^verbatim>\<open>nil handler\<close>; and mounting the
  entries \<^verbatim>\<open>/a\<close> and \<^verbatim>\<open>/b\<close>, visited in this order, under \<^verbatim>\<open>/x\<close> into a table that holds
  \<^verbatim>\<open>/x/b\<close> panics with \<^verbatim>\<open>multiple registrations\<close> after \<^verbatim>\<open>/x/a\<close> has been added.
\<close>

theorem register_existing_counterexample:
  "entries (snd (RegexpHandleFunc fresh ''a'' (Some 1))) ''a'' = Some \<lparr>handler = Some 1, regexp = True\<rparr>
   \<and> fst (HandleFunc (snd (RegexpHandleFunc fresh ''a'' (Some 1))) ''a'' (Some 2))
       = Some MustBeginWithSlash
   \<and> entries (snd (HandleFunc fresh ''/a'' (Some 1))) ''/a'' = Some \<lparr>handler = Some 1, regexp = False\<rparr>
   \<and> fst (HandleFunc (snd (HandleFunc fresh ''/a'' (Some 1))) ''/a'' None) = Some NilHandler
   \<and> entries (snd (HandleFunc fresh ''/x/b'' (Some 1))) ''/x/b'' = Some \<lparr>handler = Some 1, regexp = False\<rparr>
   \<and> entries (snd (HandleFunc fresh ''/x/b'' (Some 1))) ''/x/a'' = None
   \<and> fst (Mount (snd (HandleFunc fresh ''/x/b'' (Some 1))) ''/x''
         [(''/a'', \<lparr>handler = Some 3, regexp = False\<rparr>), (''/b'', \<lparr>handler = Some 2, regexp = False\<rparr>)])
       = Some (MultipleRegistrations ''/x/b'')
   \<and> entries (snd (Mount (snd (HandleFunc fresh ''/x/b'' (Some 1))) ''/x''
         [(''/a'', \<lparr>handler = Some 3, regexp = False\<rparr>), (''/b'', \<lparr>handler = Some 2, regexp = False\<rparr>)]))
         ''/x/a'' = Some \<lparr>handler = Some 3, regexp = False\<rparr>"
  by (simp add: eval_defs)

subsection \<open>Mounting\<close>

text \<open>
  C1. \<^verbatim>\<open>Mount\<close> registers every entry through \<^verbatim>\<open>HandleFunc\<close>, that is as a literal pattern:
  the flag \<^verbatim>\<open>regexp\<close> of the entry is not passed on. Mounting a multiplexer whose only
  entry is the regular expression \<^verbatim>\<open>/(?P<id>[0-9]+)\<close> under \<^verbatim>\<open>/users\<close> yields the literal
  entry \<^verbatim>\<open>/users/(?P<id>[0-9]+)\<close>, where \<^verbatim>\<open>RegexpHandleFunc\<close> with the same pattern and
  handler yields a regular expression. The request \<^verbatim>\<open>/users/42\<close> then reaches \<^verbatim>\<open>notFound\<close>
  (handler 0), where the directly registered entry calls the handler with \<open>id = 42\<close>.
  Mounting the regular expression \<^verbatim>\<open>^/a$\<close> under the empty prefix panics in the
  validation of literal patterns. In general, after a mount that does not panic every
  mounted entry is a literal (\<open>Mount_entries_literal\<close>).
\<close>

theorem Mount_registers_regexp_as_literal:
  "range_order (entries (snd (RegexpHandleFunc fresh ''/(?P<id>[0-9]+)'' (Some 1))))
      [(''/(?P<id>[0-9]+)'', \<lparr>handler = Some 1, regexp = True\<rparr>)]
   \<and> Mount fresh ''/users'' [(''/(?P<id>[0-9]+)'', \<lparr>handler = Some 1, regexp = True\<rparr>)]
      = (None, fresh\<lparr>m := Some [''/users/(?P<id>[0-9]+)'' \<mapsto> \<lparr>handler = Some 1, regexp = False\<rparr>]\<rparr>)
   \<and> RegexpHandleFunc fresh ''/users/(?P<id>[0-9]+)'' (Some 1)
      = (None, fresh\<lparr>m := Some [''/users/(?P<id>[0-9]+)'' \<mapsto> \<lparr>handler = Some 1, regexp = True\<rparr>]\<rparr>)
   \<and> ServeHTTP golib
        (fresh\<lparr>m := Some [''/users/(?P<id>[0-9]+)'' \<mapsto> \<lparr>handler = Some 1, regexp = False\<rparr>]\<rparr>)
        [(''/users/(?P<id>[0-9]+)'', \<lparr>handler = Some 1, regexp = False\<rparr>)] (GET ''/users/42'')
      = Inr (Call 0 (GET ''/users/42''))
   \<and> ServeHTTP golib
        (fresh\<lparr>m := Some [''/users/(?P<id>[0-9]+)'' \<mapsto> \<lparr>handler = Some 1, regexp = True\<rparr>]\<rparr>)
        [(''/users/(?P<id>[0-9]+)'', \<lparr>handler = Some 1, regexp = True\<rparr>)] (GET ''/users/42'')
      = Inr (Call 1 ((GET ''/users/42'')\<lparr>ctx := [(''id'', ''42'')]\<rparr>))
   \<and> Mount fresh [] [(''^/a$'', \<lparr>handler = Some 1, regexp = True\<rparr>)]
      = (Some MustBeginWithSlash, fresh)"
  by (simp add: eval_defs)

subsection \<open>Dispatch\<close>

text \<open>
  C2, as amended. Let the loop visit the entries \<open>pre\<close> and then an entry whose pattern
  compiles, for a request whose \<^verbatim>\<open>RequestURI\<close> is not \<^verbatim>\<open>*\<close> and whose path is not empty and
  ends with a slash, such that the path without that slash equals the pattern or matches it
  as a regular expression. If every entry of \<open>pre\<close> falls through (its pattern compiles,
  its slash check does not fire, the path is lower-case or the method is CONNECT, and it
  does not match the path as it stands), the dispatch is the permanent redirect (308) to
  the URL whose path is the path without the slash and whose query is the query of the
  request; no handler is called.
\<close>

theorem trailing_slash_redirect:
  assumes "RequestURI r \<noteq> ''*''"
    and "range_order (entries mux) (pre @ (pattern, e) # post)"
    and "list_all (falls_through L r) pre"
    and "Compile L pattern = Some re"
    and "Path (URL r) \<noteq> []" and "last (Path (URL r)) = CHR ''/''"
    and "butlast (Path (URL r)) = pattern \<or> MatchString L re (butlast (Path (URL r)))"
  shows "ServeHTTP L mux (pre @ (pattern, e) # post) r =
    Inr (Redirect
      (URLString L (zeroURL\<lparr>Path := butlast (Path (URL r)), RawQuery := RawQuery (URL r)\<rparr>))
      StatusPermanentRedirect)"
proof -
  have "serve_loop L r (pre @ (pattern, e) # post) = serve_loop L r ((pattern, e) # post)"
    using assms(3) by (rule serve_loop_prefix)
  also have "\<dots> = Inr (Some (Redirect
      (URLString L (zeroURL\<lparr>Path := butlast (Path (URL r)), RawQuery := RawQuery (URL r)\<rparr>))
      StatusPermanentRedirect))"
    using assms(4-7) by (rule serve_loop_slash)
  finally show ?thesis
    using assms(1) by (simp add: ServeHTTP_loop)
qed

theorem trailing_slash_redirect_witness:
  "RequestURI (GET_query ''/a/'' ''x=1'') \<noteq> ''*''
   \<and> range_order (entries (snd (HandleFunc (snd (HandleFunc fresh ''/a'' (Some 2))) ''/b'' (Some 1))))
        [(''/b'', \<lparr>handler = Some 1, regexp = False\<rparr>), (''/a'', \<lparr>handler = Some 2, regexp = False\<rparr>)]
   \<and> list_all (falls_through golib (GET_query ''/a/'' ''x=1''))
        [(''/b'', \<lparr>handler = Some (1::nat), regexp = False\<rparr>)]
   \<and> Compile golib ''/a'' = Some (Cat (Lit CHR ''/'') (Lit CHR ''a''))
   \<and> last (Path (URL (GET_query ''/a/'' ''x=1''))) = CHR ''/''
   \<and> butlast (Path (URL (GET_query ''/a/'' ''x=1''))) = ''/a''
   \<and> ServeHTTP golib (snd (HandleFunc (snd (HandleFunc fresh ''/a'' (Some 2))) ''/b'' (Some 1)))
        [(''/b'', \<lparr>handler = Some 1, regexp = False\<rparr>), (''/a'', \<lparr>handler = Some 2, regexp = False\<rparr>)]
        (GET_query ''/a/'' ''x=1'')
      = Inr (Redirect ''/a?x=1'' 308)"
proof -
  let ?mux = "snd (HandleFunc (snd (HandleFunc fresh ''/a'' (Some 2))) ''/b'' (Some (1::nat)))"
  let ?b = "(''/b'', \<lparr>handler = Some (1::nat), regexp = False\<rparr>)"
  let ?e = "\<lparr>handler = Some (2::nat), regexp = False\<rparr>"
  let ?r = "GET_query ''/a/'' ''x=1''"
  have 1: "RequestURI ?r \<noteq> ''*''"
    by (simp add: eval_defs GET_query_def)
  have 2: "range_order (entries ?mux) ([?b] @ (''/a'', ?e) # [])"
    by (simp add: eval_defs GET_query_def)
  have 3: "list_all (falls_through golib ?r) [?b]"
    by (simp add: eval_defs GET_query_def falls_through_def passes_slash_check_def entry_matches_def)
  have 4: "Compile golib ''/a'' = Some (Cat (Lit CHR ''/'') (Lit CHR ''a''))"
    by (simp add: eval_defs GET_query_def)
  have 5: "Path (URL ?r) \<noteq> []" and 6: "last (Path (URL ?r)) = CHR ''/''"
    and 7: "butlast (Path (URL ?r)) = ''/a''
      \<or> MatchString golib (Cat (Lit CHR ''/'') (Lit CHR ''a'')) (butlast (Path (URL ?r)))"
    by (simp_all add: eval_defs GET_query_def)
  have 8: "butlast (Path (URL ?r)) = ''/a''"
    by (simp add: eval_defs GET_query_def)
  have "ServeHTTP golib ?mux ([?b] @ (''/a'', ?e) # []) ?r = Inr (Redirect ''/a?x=1'' 308)"
    using trailing_slash_redirect [OF 1 2 3 4 5 6 7] by (simp add: eval_defs GET_query_def)
  with 1 2 3 4 6 8 show ?thesis
    by simp
qed

text \<open>
  The counterexample to the claim as stated, in which a slash-stripped path that equals a
  registered pattern is enough: with the regular expression \<^verbatim>\<open>/x/\<close> visited before the
  literal \<^verbatim>\<open>/x\<close>, the request \<^verbatim>\<open>/x/\<close> calls the handler of the former; with the literal
  \<^verbatim>\<open>/a\<close> visited before \<^verbatim>\<open>/B\<close>, the request \<^verbatim>\<open>/B/\<close> is redirected to the lower-cased
  \<^verbatim>\<open>/b/\<close>; and with the literal \<^verbatim>\<open>/a(\<close> registered, the request \<^verbatim>\<open>/a(/\<close> panics in
  \<^verbatim>\<open>regexp.MustCompile\<close>.
\<close>

theorem trailing_slash_redirect_counterexample:
  "range_order (entries (snd (RegexpHandleFunc (snd (HandleFunc fresh ''/x'' (Some 2))) ''/x/'' (Some 1))))
      [(''/x/'', \<lparr>handler = Some 1, regexp = True\<rparr>), (''/x'', \<lparr>handler = Some 2, regexp = False\<rparr>)]
   \<and> RequestURI (GET ''/x/'') \<noteq> ''*''
   \<and> Path (URL (GET ''/x/'')) \<noteq> []
   \<and> last (Path (URL (GET ''/x/''))) = CHR ''/''
   \<and> entries (snd (RegexpHandleFunc (snd (HandleFunc fresh ''/x'' (Some 2))) ''/x/'' (Some 1)))
        (butlast (Path (URL (GET ''/x/'')))) = Some \<lparr>handler = Some 2, regexp = False\<rparr>
   \<and> ServeHTTP golib (snd (RegexpHandleFunc (snd (HandleFunc fresh ''/x'' (Some 2))) ''/x/'' (Some 1)))
        [(''/x/'', \<lparr>handler = Some 1, regexp = True\<rparr>), (''/x'', \<lparr>handler = Some 2, regexp = False\<rparr>)]
        (GET ''/x/'')
      = Inr (Call 1 (GET ''/x/''))
   \<and> range_order (entries (snd (HandleFunc (snd (HandleFunc fresh ''/B'' (Some 2))) ''/a'' (Some 1))))
        [(''/a'', \<lparr>handler = Some 1, regexp = False\<rparr>), (''/B'', \<lparr>handler = Some 2, regexp = False\<rparr>)]
   \<and> entries (snd (HandleFunc (snd (HandleFunc fresh ''/B'' (Some 2))) ''/a'' (Some 1)))
        (butlast (Path (URL (GET ''/B/'')))) = Some \<lparr>handler = Some 2, regexp = False\<rparr>
   \<and> ServeHTTP golib (snd (HandleFunc (snd (HandleFunc fresh ''/B'' (Some 2))) ''/a'' (Some 1)))
        [(''/a'', \<lparr>handler = Some 1, regexp = False\<rparr>), (''/B'', \<lparr>handler = Some 2, regexp = False\<rparr>)]
        (GET ''/B/'')
      = Inr (Redirect ''/b/'' 308)
   \<and> entries (snd (HandleFunc fresh ''/a('' (Some 1))) (butlast (Path (URL (GET ''/a(/''))))
      = Some \<lparr>handler = Some 1, regexp = False\<rparr>
   \<and> ServeHTTP golib (snd (HandleFunc fresh ''/a('' (Some 1)))
        [(''/a('', \<lparr>handler = Some 1, regexp = False\<rparr>)] (GET ''/a(/'')
      = Inl (RegexpMustCompile ''/a('')"
  by (simp add: eval_defs)

text \<open>
  C4, as amended. Let the library be one whose upper-case runes are letters and not
  lower-case, as those of \<^verbatim>\<open>unicode\<close> are. For a request whose \<^verbatim>\<open>RequestURI\<close> is not \<^verbatim>\<open>*\<close>
  and whose method is not CONNECT: if some rune of the path is an upper-case letter and the
  entry the loop visits first passes the slash check (its pattern compiles and the slash
  check does not fire), the dispatch is the permanent redirect (308) to the lower-cased
  string of the whole URL, and no handler is called. Conversely, when every letter of the
  path is lower-case, every redirect that a dispatch issues is the one of the slash check:
  the path ends with a slash and the target is the URL without it. Nothing is said of a
  path whose letters that are not lower-case are all without case.
\<close>

theorem case_redirect:
  assumes "RequestURI r \<noteq> ''*''"
    and "range_order (entries mux) es"
    and "\<forall>c. IsUpper L c \<longrightarrow> IsLetter L c \<and> \<not> IsLower L c"
  shows "(\<forall>pattern e rest.
            es = (pattern, e) # rest \<and> Method r \<noteq> MethodConnect
            \<and> passes_slash_check L (Path (URL r)) pattern
            \<and> (\<exists>c\<in>set (runes (Path (URL r))). IsUpper L c)
            \<longrightarrow> ServeHTTP L mux es r
                 = Inr (Redirect (ToLower L (URLString L (URL r))) StatusPermanentRedirect))
    \<and> ((\<forall>c\<in>set (runes (Path (URL r))). IsLetter L c \<longrightarrow> IsLower L c)
         \<longrightarrow> (\<forall>u c. ServeHTTP L mux es r = Inr (Redirect u c)
                \<longrightarrow> last (Path (URL r)) = CHR ''/''
                  \<and> u = URLString L
                      (zeroURL\<lparr>Path := butlast (Path (URL r)), RawQuery := RawQuery (URL r)\<rparr>)))"
proof (intro conjI allI impI)
  fix pattern e rest
  assume "es = (pattern, e) # rest \<and> Method r \<noteq> MethodConnect
    \<and> passes_slash_check L (Path (URL r)) pattern
    \<and> (\<exists>c\<in>set (runes (Path (URL r))). IsUpper L c)"
  then have es: "es = (pattern, e) # rest"
    and p: "passes_slash_check L (Path (URL r)) pattern"
    and c: "Method r \<noteq> MethodConnect"
    and u: "\<exists>c\<in>set (runes (Path (URL r))). IsUpper L c"
    by simp_all
  from assms(3) u have l: "\<not> isLower L (Path (URL r))"
    by (rule upper_not_isLower)
  have "serve_loop L r ((pattern, e) # rest) =
    Inr (Some (Redirect (ToLower L (URLString L (URL r))) StatusPermanentRedirect))"
    using p c l by (rule serve_loop_case)
  then show "ServeHTTP L mux es r
      = Inr (Redirect (ToLower L (URLString L (URL r))) StatusPermanentRedirect)"
    using assms(1) by (simp add: ServeHTTP_loop es del: serve_loop.simps)
next
  fix u c
  assume "\<forall>c\<in>set (runes (Path (URL r))). IsLetter L c \<longrightarrow> IsLower L c"
    and red: "ServeHTTP L mux es r = Inr (Redirect u c)"
  then have low: "isLower L (Path (URL r))"
    by (simp add: isLower_iff)
  from red assms(1) have "serve_loop L r es = Inr (Some (Redirect u c))"
    by (auto simp: ServeHTTP_loop invoke_def split: sum.splits option.splits)
  with low have "Path (URL r) \<noteq> [] \<and> last (Path (URL r)) = CHR ''/''
    \<and> u = URLString L (zeroURL\<lparr>Path := butlast (Path (URL r)), RawQuery := RawQuery (URL r)\<rparr>)
    \<and> c = StatusPermanentRedirect"
    by (rule serve_loop_redirect_of_lower)
  then show "last (Path (URL r)) = CHR ''/''"
    and "u = URLString L (zeroURL\<lparr>Path := butlast (Path (URL r)), RawQuery := RawQuery (URL r)\<rparr>)"
    by simp_all
qed

theorem case_redirect_witness:
  "RequestURI (GET_query ''/Hello'' ''Q=1'') \<noteq> ''*''
   \<and> range_order (entries (snd (HandleFunc fresh ''/hello'' (Some 1))))
        [(''/hello'', \<lparr>handler = Some 1, regexp = False\<rparr>)]
   \<and> Method (GET_query ''/Hello'' ''Q=1'') \<noteq> MethodConnect
   \<and> passes_slash_check golib (Path (URL (GET_query ''/Hello'' ''Q=1''))) ''/hello''
   \<and> list_ex (IsUpper golib) (runes (Path (URL (GET_query ''/Hello'' ''Q=1''))))
   \<and> ServeHTTP golib (snd (HandleFunc fresh ''/hello'' (Some 1)))
        [(''/hello'', \<lparr>handler = Some 1, regexp = False\<rparr>)] (GET_query ''/Hello'' ''Q=1'')
      = Inr (Redirect ''/hello?q=1'' 308)
   \<and> list_all (\<lambda>c. \<not> IsLetter golib c \<or> IsLower golib c) (runes (Path (URL (GET ''/a/''))))
   \<and> ServeHTTP golib (snd (HandleFunc fresh ''/a'' (Some 1)))
        [(''/a'', \<lparr>handler = Some 1, regexp = False\<rparr>)] (GET ''/a/'')
      = Inr (Redirect ''/a'' 308)
   \<and> last (Path (URL (GET ''/a/''))) = CHR ''/''"
proof -
  let ?mux = "snd (HandleFunc fresh ''/hello'' (Some (1::nat)))"
  let ?es = "[(''/hello'', \<lparr>handler = Some (1::nat), regexp = False\<rparr>)]"
  let ?r = "GET_query ''/Hello'' ''Q=1''"
  let ?mux2 = "snd (HandleFunc fresh ''/a'' (Some (1::nat)))"
  let ?es2 = "[(''/a'', \<lparr>handler = Some (1::nat), regexp = False\<rparr>)]"
  have lib: "\<forall>c. IsUpper golib c \<longrightarrow> IsLetter golib c \<and> \<not> IsLower golib c"
    by (simp add: golib_def ascii_IsUpper_def ascii_IsLower_def fragment_IsLetter_def)
  have 1: "RequestURI ?r \<noteq> ''*''" and 2: "range_order (entries ?mux) ?es"
    by (simp_all add: eval_defs GET_query_def)
  have 3: "Method ?r \<noteq> MethodConnect" "passes_slash_check golib (Path (URL ?r)) ''/hello''"
    by (simp_all add: eval_defs GET_query_def passes_slash_check_def)
  have up: "list_ex (IsUpper golib) (runes (Path (URL ?r)))"
    by (simp add: eval_defs GET_query_def)
  then have 3: "?es = (''/hello'', \<lparr>handler = Some (1::nat), regexp = False\<rparr>) # []
    \<and> Method ?r \<noteq> MethodConnect \<and> passes_slash_check golib (Path (URL ?r)) ''/hello''
    \<and> (\<exists>c\<in>set (runes (Path (URL ?r))). IsUpper golib c)"
    using 3 by (simp add: list_ex_iff)
  have 4: "RequestURI (GET ''/a/'') \<noteq> ''*''" and 5: "range_order (entries ?mux2) ?es2"
    by (simp_all add: eval_defs)
  have low: "list_all (\<lambda>c. \<not> IsLetter golib c \<or> IsLower golib c) (runes (Path (URL (GET ''/a/''))))"
    by (simp add: eval_defs)
  then have 6: "\<forall>c\<in>set (runes (Path (URL (GET ''/a/'')))). IsLetter golib c \<longrightarrow> IsLower golib c"
    by (auto simp: list_all_iff)
  from case_redirect [OF 1 2 lib] 3
  have "ServeHTTP golib ?mux ?es ?r
    = Inr (Redirect (ToLower golib (URLString golib (URL ?r))) StatusPermanentRedirect)"
    by blast
  then have a: "ServeHTTP golib ?mux ?es ?r = Inr (Redirect ''/hello?q=1'' 308)"
    by (simp add: eval_defs GET_query_def)
  have b: "ServeHTTP golib ?mux2 ?es2 (GET ''/a/'') = Inr (Redirect ''/a'' 308)"
    by (simp add: eval_defs)
  from case_redirect [OF 4 5 lib] 6 b
  have c: "last (Path (URL (GET ''/a/''))) = CHR ''/''"
    by blast
  from 1 2 3 up a low b c show ?thesis
    by simp
qed

text \<open>
  The counterexample to the claim as stated. It asks nothing of the patterns: with the
  literal pattern \<^verbatim>\<open>/a(\<close> registered, the request \<^verbatim>\<open>/A\<close> panics in
  \<^verbatim>\<open>regexp.MustCompile\<close>, before the case check is reached. And it lets no path without an
  upper-case letter be redirected: \<^verbatim>\<open>isLower\<close> tests
  \<^verbatim>\<open>unicode.IsLetter(r) && !unicode.IsLower(r)\<close>, which also holds of a letter without case,
  so the path \<^verbatim>\<open>/\<close> followed by the ideograph U+4E2D (three bytes in UTF-8) is redirected to
  the lower-cased string of its own URL.
\<close>

theorem case_redirect_counterexample:
  "range_order (entries (snd (HandleFunc fresh ''/a('' (Some 1))))
      [(''/a('', \<lparr>handler = Some 1, regexp = False\<rparr>)]
   \<and> RequestURI (GET ''/A'') \<noteq> ''*''
   \<and> Method (GET ''/A'') \<noteq> MethodConnect
   \<and> list_ex (IsUpper golib) (runes (Path (URL (GET ''/A''))))
   \<and> last (Path (URL (GET ''/A''))) \<noteq> CHR ''/''
   \<and> ServeHTTP golib (snd (HandleFunc fresh ''/a('' (Some 1)))
        [(''/a('', \<lparr>handler = Some 1, regexp = False\<rparr>)] (GET ''/A'')
      = Inl (RegexpMustCompile ''/a('')
   \<and> range_order (entries (snd (HandleFunc fresh ''/a'' (Some 1))))
      [(''/a'', \<lparr>handler = Some 1, regexp = False\<rparr>)]
   \<and> runes [CHR ''/'', CHR 0xE4, CHR 0xB8, CHR 0xAD] = [0x2F, 0x4E2D]
   \<and> \<not> list_ex (IsUpper golib) (runes (Path (URL (GET [CHR ''/'', CHR 0xE4, CHR 0xB8, CHR 0xAD]))))
   \<and> ServeHTTP golib (snd (HandleFunc fresh ''/a'' (Some 1)))
        [(''/a'', \<lparr>handler = Some 1, regexp = False\<rparr>)]
        ((GET [CHR ''/'', CHR 0xE4, CHR 0xB8, CHR 0xAD])\<lparr>RequestURI := ''/%E4%B8%AD''\<rparr>)
      = Inr (Redirect ''/%e4%b8%ad'' 308)"
  by (simp add: eval_defs)







text \<open>
  C8. \<^verbatim>\<open>urlWithoutSlash\<close> compiles the pattern of every entry the loop visits, literal or
  not, before it looks at the path and before the match test. So a pattern that is valid as
  a literal and that \<^verbatim>\<open>regexp\<close> does not compile is registered by \<^verbatim>\<open>HandleFunc\<close>, and from
  then on every dispatch whose loop reaches its entry (the \<^verbatim>\<open>RequestURI\<close> is not \<^verbatim>\<open>*\<close> and
  the entries visited before it fall through) panics in \<^verbatim>\<open>regexp.MustCompile\<close>, whatever
  the path and the kind of the entry. The pattern \<^verbatim>\<open>/a(\<close> is one.
\<close>

theorem uncompilable_pattern_panics:
  assumes "Compile L pattern = None"
    and "valid_pattern pattern False" and "entries mux pattern = None" and "h \<noteq> None"
  shows "fst (HandleFunc mux pattern h) = None
    \<and> entries (snd (HandleFunc mux pattern h)) pattern = Some \<lparr>handler = h, regexp = False\<rparr>
    \<and> (\<forall>r pre e post.
          RequestURI r \<noteq> ''*''
          \<and> range_order (entries (snd (HandleFunc mux pattern h))) (pre @ (pattern, e) # post)
          \<and> list_all (falls_through L r) pre
          \<longrightarrow> ServeHTTP L (snd (HandleFunc mux pattern h)) (pre @ (pattern, e) # post) r
               = Inl (RegexpMustCompile pattern))"
proof (intro conjI allI impI)
  show "fst (HandleFunc mux pattern h) = None"
    and "entries (snd (HandleFunc mux pattern h)) pattern = Some \<lparr>handler = h, regexp = False\<rparr>"
    using assms(2-4) by (auto simp: HandleFunc_def register_def valid_pattern_def entries_def)
next
  fix r pre e post
  assume a: "RequestURI r \<noteq> ''*''
    \<and> range_order (entries (snd (HandleFunc mux pattern h))) (pre @ (pattern, e) # post)
    \<and> list_all (falls_through L r) pre"
  then have "serve_loop L r (pre @ (pattern, e) # post) = serve_loop L r ((pattern, e) # post)"
    by (simp add: serve_loop_prefix)
  also have "\<dots> = Inl (RegexpMustCompile pattern)"
    using assms(1) by (rule serve_loop_uncompilable)
  finally show "ServeHTTP L (snd (HandleFunc mux pattern h)) (pre @ (pattern, e) # post) r
      = Inl (RegexpMustCompile pattern)"
    using a by (simp add: ServeHTTP_loop)
qed

theorem uncompilable_pattern_panics_witness:
  "Compile golib ''/a('' = None
   \<and> valid_pattern ''/a('' False
   \<and> entries fresh ''/a('' = None
   \<and> fst (HandleFunc fresh ''/a('' (Some 1)) = None
   \<and> range_order (entries (snd (HandleFunc fresh ''/a('' (Some 1))))
        [(''/a('', \<lparr>handler = Some 1, regexp = False\<rparr>)]
   \<and> ServeHTTP golib (snd (HandleFunc fresh ''/a('' (Some 1)))
        [(''/a('', \<lparr>handler = Some 1, regexp = False\<rparr>)] (GET ''/a('')
      = Inl (RegexpMustCompile ''/a('')
   \<and> ServeHTTP golib (snd (HandleFunc fresh ''/a('' (Some 1)))
        [(''/a('', \<lparr>handler = Some 1, regexp = False\<rparr>)] (GET ''/b'')
      = Inl (RegexpMustCompile ''/a('')"
proof -
  let ?es = "[(''/a('', \<lparr>handler = Some (1::nat), regexp = False\<rparr>)]"
  have 1: "Compile golib ''/a('' = None"
    and 2: "valid_pattern ''/a('' False"
    and 3: "entries fresh ''/a('' = None"
    and 4: "Some (1::nat) \<noteq> None"
    by (simp_all add: eval_defs valid_pattern_def)
  have o: "range_order (entries (snd (HandleFunc fresh ''/a('' (Some 1)))) ([] @ ?es)"
    by (simp add: eval_defs)
  have u: "RequestURI (GET ''/a('') \<noteq> ''*''" "RequestURI (GET ''/b'') \<noteq> ''*''"
    by (simp_all add: eval_defs)
  have pre: "list_all (falls_through golib r) []" for r
    by simp
  note t = uncompilable_pattern_panics [OF 1 2 3 4]
  from t have f: "fst (HandleFunc fresh ''/a('' (Some 1)) = None"
    by simp
  from t o u(1) pre have a: "ServeHTTP golib (snd (HandleFunc fresh ''/a('' (Some 1))) ([] @ ?es)
      (GET ''/a('') = Inl (RegexpMustCompile ''/a('')"
    by blast
  from t o u(2) pre have b: "ServeHTTP golib (snd (HandleFunc fresh ''/a('' (Some 1))) ([] @ ?es)
      (GET ''/b'') = Inl (RegexpMustCompile ''/a('')"
    by blast
  from 1 2 3 f o a b show ?thesis
    by simp
qed

text \<open>
  C9, as amended. For a request whose \<^verbatim>\<open>RequestURI\<close> is not \<^verbatim>\<open>*\<close> and whose path is empty,
  and a table that is not empty and whose entry visited first has a pattern that compiles,
  the dispatch panics with an index out of range: \<^verbatim>\<open>urlWithoutSlash\<close> reads
  \<^verbatim>\<open>path[len(path)-1]\<close>. Neither the match test nor \<^verbatim>\<open>notFound\<close> is reached.
\<close>

theorem empty_path_index_panic:
  assumes "RequestURI r \<noteq> ''*''" and "Path (URL r) = []"
    and "range_order (entries mux) ((pattern, e) # es)"
    and "Compile L pattern \<noteq> None"
  shows "ServeHTTP L mux ((pattern, e) # es) r = Inl IndexOutOfRange"
proof -
  have "serve_loop L r ((pattern, e) # es) = Inl IndexOutOfRange"
    using assms(4,2) by (rule serve_loop_empty_path)
  then show ?thesis
    using assms(1) by (simp add: ServeHTTP_loop del: serve_loop.simps)
qed

theorem empty_path_index_panic_witness:
  "RequestURI (CONNECT ''example.com:443'') \<noteq> ''*''
   \<and> Path (URL (CONNECT ''example.com:443'')) = []
   \<and> range_order (entries (snd (HandleFunc fresh ''/a'' (Some 1))))
        [(''/a'', \<lparr>handler = Some 1, regexp = False\<rparr>)]
   \<and> Compile golib ''/a'' \<noteq> None
   \<and> ServeHTTP golib (snd (HandleFunc fresh ''/a'' (Some 1)))
        [(''/a'', \<lparr>handler = Some 1, regexp = False\<rparr>)] (CONNECT ''example.com:443'')
      = Inl IndexOutOfRange"
proof -
  have 1: "RequestURI (CONNECT ''example.com:443'') \<noteq> ''*''"
    and 2: "Path (URL (CONNECT ''example.com:443'')) = []"
    and 3: "range_order (entries (snd (HandleFunc fresh ''/a'' (Some 1))))
        [(''/a'', \<lparr>handler = Some 1, regexp = False\<rparr>)]"
    and 4: "Compile golib ''/a'' \<noteq> None"
    by (simp_all add: eval_defs CONNECT_def)
  show ?thesis
    using 1 2 3 4 empty_path_index_panic [OF 1 2 3 4] by simp
qed

text \<open>
  The counterexample to the claim as stated, for every table that is not empty: when the
  pattern visited first does not compile, \<^verbatim>\<open>regexp.MustCompile\<close> panics before the path is
  read.
\<close>

theorem empty_path_index_panic_counterexample:
  "RequestURI (CONNECT ''example.com:443'') \<noteq> ''*''
   \<and> Path (URL (CONNECT ''example.com:443'')) = []
   \<and> range_order (entries (snd (HandleFunc fresh ''/a('' (Some 1))))
        [(''/a('', \<lparr>handler = Some 1, regexp = False\<rparr>)]
   \<and> ServeHTTP golib (snd (HandleFunc fresh ''/a('' (Some 1)))
        [(''/a('', \<lparr>handler = Some 1, regexp = False\<rparr>)] (CONNECT ''example.com:443'')
      = Inl (RegexpMustCompile ''/a('')"
  by (simp add: eval_defs CONNECT_def)

subsection \<open>The empty table\<close>

text \<open>
  C10. A multiplexer whose table is empty (nil or without keys) calls \<^verbatim>\<open>notFound\<close> with the
  request it was given, for every request whose \<^verbatim>\<open>RequestURI\<close> is not \<^verbatim>\<open>*\<close>: the loop has
  no round, so neither redirect is issued, whatever the path.
\<close>

theorem empty_table_not_found:
  assumes "RequestURI r \<noteq> ''*''"
    and "entries mux = Map.empty"
    and "range_order (entries mux) es"
  shows "ServeHTTP L mux es r = invoke (notFound mux) r"
  using assms by (simp add: range_order_empty ServeHTTP_def)

theorem empty_table_not_found_witness:
  "RequestURI (GET ''/A/'') \<noteq> ''*''
   \<and> entries \<lparr>m = None, notFound = Some (0::nat)\<rparr> = Map.empty
   \<and> range_order (entries \<lparr>m = None, notFound = Some (0::nat)\<rparr>) []
   \<and> ServeHTTP golib \<lparr>m = None, notFound = Some (0::nat)\<rparr> [] (GET ''/A/'')
       = Inr (Call 0 (GET ''/A/''))"
proof -
  have a: "RequestURI (GET ''/A/'') \<noteq> ''*''"
    by (simp add: GET_def)
  have b: "entries \<lparr>m = None, notFound = Some (0::nat)\<rparr> = Map.empty"
    by (simp add: entries_def)
  have c: "range_order (entries \<lparr>m = None, notFound = Some (0::nat)\<rparr>) []"
    by (simp add: b range_order_empty)
  show ?thesis
    using a b c empty_table_not_found [OF a b c, of golib] by (simp add: invoke_def)
qed

end
